theory Spec2Isabelle
  imports Complex_Main "HOL-Library.Sublist"
begin

section \<open>JavaScript numbers\<close>

text \<open>
  The portal's numeric fields have the TypeScript type \<^verbatim>\<open>number\<close>. A value of that type
  is \<^verbatim>\<open>NaN\<close>, one of the two infinities, negative zero, or a finite value. \<open>Fin q\<close>
  stands for the Number value of the rational \<open>q\<close>; \<open>Fin 0\<close> is the positive zero.
  The rounding of \<open>q\<close> to the nearest binary64 value is not represented: nothing in
  \<^verbatim>\<open>App.tsx\<close> computes with these numbers, it stores them, shows them and tests them with
  \<^verbatim>\<open>Number.isNaN\<close>, and rounding never turns a number into \<^verbatim>\<open>NaN\<close> or back.
\<close>

datatype jsnum = NaN | PosInfinity | NegInfinity | NegZero | Fin rat

text \<open>\<^verbatim>\<open>Number.isNaN(n)\<close> for a value \<open>n\<close> of type \<^verbatim>\<open>number\<close>.\<close>

fun isNaN :: "jsnum \<Rightarrow> bool" where
  "isNaN NaN = True"
| "isNaN _ = False"

section \<open>Exceptions queue\<close>

subsection \<open>Types\<close>

text \<open>
  \<^verbatim>\<open>
  type ExceptionItem = {
    id: string; time: string; vehicleId: string; plate: string; driver: string;
    type: "Off-Route" | "Tank-Overfill" | "After-Hours" | "Card-Not-Present" | "Velocity" | "MCC-Blocked";
    amount: number; location: string; reason: string;
    status: "Open" | "Approved" | "Denied";
  };
  \<close>
  The field names \<^verbatim>\<open>id\<close>, \<^verbatim>\<open>time\<close>, \<^verbatim>\<open>plate\<close>, \<^verbatim>\<open>driver\<close> and \<^verbatim>\<open>type\<close> are shared with
  other types of the source or clash with HOL constants, so they carry the prefix \<open>e_\<close>.
\<close>

datatype exception_type =
  Off_Route | Tank_Overfill | After_Hours | Card_Not_Present | Velocity | MCC_Blocked

datatype status = Open | Approved | Denied

record ExceptionItem =
  e_id :: string
  e_time :: string
  vehicleId :: string
  e_plate :: string
  e_driver :: string
  e_type :: exception_type
  amount :: jsnum
  location :: string
  reason :: string
  status :: status

text \<open>
  The second argument of \<^verbatim>\<open>onAction\<close> has the type \<^verbatim>\<open>"Approved" | "Denied"\<close>, a subtype
  of the status type; \<open>action_status\<close> is the inclusion.
\<close>

datatype action = ActionApproved | ActionDenied

fun action_status :: "action \<Rightarrow> status" where
  "action_status ActionApproved = Approved"
| "action_status ActionDenied = Denied"

text \<open>
  The state of the filter drop-down of \<^verbatim>\<open>ExceptionsTable\<close>:
  \<^verbatim>\<open>"All" | "Open" | "Approved" | "Denied"\<close>. The source compares the filter with an
  item's status as strings, so both types come with the string each value is.
\<close>

datatype status_filter = FilterAll | FilterOpen | FilterApproved | FilterDenied

fun status_string :: "status \<Rightarrow> string" where
  "status_string Open = ''Open''"
| "status_string Approved = ''Approved''"
| "status_string Denied = ''Denied''"

fun filter_string :: "status_filter \<Rightarrow> string" where
  "filter_string FilterAll = ''All''"
| "filter_string FilterOpen = ''Open''"
| "filter_string FilterApproved = ''Approved''"
| "filter_string FilterDenied = ''Denied''"

subsection \<open>Operations\<close>

text \<open>
  \<^verbatim>\<open>
  const filtered = useMemo(
    () => exceptions.filter((e) => (filter === "All" ? true : e.status === filter)),
    [exceptions, filter]
  );
  \<close>
\<close>

definition filtered :: "status_filter \<Rightarrow> ExceptionItem list \<Rightarrow> ExceptionItem list" where
  "filtered flt exceptions =
     filter (\<lambda>e. if filter_string flt = ''All'' then True
                 else status_string (status e) = filter_string flt) exceptions"

text \<open>
  \<^verbatim>\<open>
  const handleExceptionAction = (id: string, action: "Approved" | "Denied") => {
    setExceptions((prev) => prev.map((e) => (e.id === id ? { ...e, status: action } : e)));
  };
  \<close>
  The state \<^verbatim>\<open>exceptions\<close> is passed in as \<open>prev\<close> and the new state is returned. The
  function has no failing branch, so its result is a plain list.
\<close>

definition handleExceptionAction ::
  "string \<Rightarrow> action \<Rightarrow> ExceptionItem list \<Rightarrow> ExceptionItem list" where
  "handleExceptionAction i act prev =
     map (\<lambda>e. if e_id e = i then e\<lparr>status := action_status act\<rparr> else e) prev"

text \<open>The filter value that names a given status.\<close>

fun filter_of :: "status \<Rightarrow> status_filter" where
  "filter_of Open = FilterOpen"
| "filter_of Approved = FilterApproved"
| "filter_of Denied = FilterDenied"

text \<open>
  The first entry of \<^verbatim>\<open>mockExceptions\<close>. Its \<^verbatim>\<open>time\<close> is the ISO string of the clock at
  load time, which is passed in. The dash between the two hours of its \<^verbatim>\<open>reason\<close> is an
  en dash in the source, a character beyond the 8-bit ones, and is written as a hyphen.
\<close>

definition mockException1 :: "string \<Rightarrow> ExceptionItem" where
  "mockException1 t =
     \<lparr> e_id = ''E-9001'', e_time = t, vehicleId = ''V-104'', e_plate = ''PLK 908 LP'',
       e_driver = ''T. Mokoena'', e_type = After_Hours, amount = Fin 680,
       location = ''N1 North, Polokwane'',
       reason = ''Swipe at 22:37 outside allowed 06:00-20:00 window'', status = Open \<rparr>"

text \<open>The second entry of \<^verbatim>\<open>mockExceptions\<close>.\<close>

definition mockException2 :: "string \<Rightarrow> ExceptionItem" where
  "mockException2 t =
     \<lparr> e_id = ''E-9002'', e_time = t, vehicleId = ''V-103'', e_plate = ''DBN 789 KZN'',
       e_driver = ''K. Naidoo'', e_type = Off_Route, amount = Fin 420,
       location = ''Queensburgh, Durban'',
       reason = ''Vehicle 8km outside geofence at time of purchase'', status = Open \<rparr>"

section \<open>Map panel\<close>

text \<open>
  \<^verbatim>\<open>
  type Vehicle = {
    id: string; plate: string; driver: string; lat: number; lng: number;
    spendToday: number; spend7d: number; spend30d: number;
  };
  \<close>
\<close>

record Vehicle =
  v_id :: string
  v_plate :: string
  v_driver :: string
  lat :: jsnum
  lng :: jsnum
  spendToday :: jsnum
  spend7d :: jsnum
  spend30d :: jsnum

text \<open>
  The type of \<^verbatim>\<open>spendKey\<close>, \<^verbatim>\<open>keyof Pick<Vehicle, "spendToday" | "spend7d" | "spend30d">\<close>,
  and the property read \<^verbatim>\<open>v[spendKey]\<close>.
\<close>

datatype spendKey = Key_spendToday | Key_spend7d | Key_spend30d

fun vehicle_get :: "Vehicle \<Rightarrow> spendKey \<Rightarrow> jsnum" where
  "vehicle_get v Key_spendToday = spendToday v"
| "vehicle_get v Key_spend7d = spend7d v"
| "vehicle_get v Key_spend30d = spend30d v"

text \<open>The spend window of the toolbar: \<^verbatim>\<open>"today" | "7d" | "30d"\<close>.\<close>

datatype spendWindow = Window_today | Window_7d | Window_30d

text \<open>The object literals that \<^verbatim>\<open>vehiclesToGeoJSON\<close> builds.\<close>

record Properties =
  f_id :: string
  f_plate :: string
  f_driver :: string
  spend :: jsnum

record Geometry =
  g_type :: string
  coordinates :: "jsnum list"

record Feature =
  f_type :: string
  properties :: Properties
  geometry :: Geometry

record FeatureCollection =
  fc_type :: string
  features :: "Feature list"

text \<open>
  \<^verbatim>\<open>
  function vehiclesToGeoJSON(vehicles, spendKey) {
    return {
      type: "FeatureCollection",
      features: vehicles.map((v) => ({
        type: "Feature",
        properties: { id: v.id, plate: v.plate, driver: v.driver, spend: v[spendKey] },
        geometry: { type: "Point", coordinates: [v.lng, v.lat] },
      })),
    } as GeoJSON.FeatureCollection;
  }
  \<close>
\<close>

definition vehiclesToGeoJSON :: "Vehicle list \<Rightarrow> spendKey \<Rightarrow> FeatureCollection" where
  "vehiclesToGeoJSON vehicles key =
     \<lparr> fc_type = ''FeatureCollection'',
       features = map (\<lambda>v.
         \<lparr> f_type = ''Feature'',
           properties = \<lparr> f_id = v_id v, f_plate = v_plate v, f_driver = v_driver v,
                          spend = vehicle_get v key \<rparr>,
           geometry = \<lparr> g_type = ''Point'', coordinates = [lng v, lat v] \<rparr> \<rparr>) vehicles \<rparr>"

text \<open>
  The memoised value of \<^verbatim>\<open>MapPanel\<close>:
  \<^verbatim>\<open>
  const geojson = useMemo(() => {
    const key = spendWindow === "today" ? "spendToday" : spendWindow === "7d" ? "spend7d" : "spend30d";
    return vehiclesToGeoJSON(vehicles, key as any);
  }, [vehicles, spendWindow]);
  \<close>
\<close>

definition geojson :: "Vehicle list \<Rightarrow> spendWindow \<Rightarrow> FeatureCollection" where
  "geojson vehicles w =
     (let key = (if w = Window_today then Key_spendToday
                 else if w = Window_7d then Key_spend7d else Key_spend30d)
      in vehiclesToGeoJSON vehicles key)"

text \<open>The spend aggregate a window stands for.\<close>

fun window_spend :: "spendWindow \<Rightarrow> Vehicle \<Rightarrow> jsnum" where
  "window_spend Window_today v = spendToday v"
| "window_spend Window_7d v = spend7d v"
| "window_spend Window_30d v = spend30d v"

text \<open>The first two entries of \<^verbatim>\<open>mockVehicles\<close>.\<close>

definition mockVehicle1 :: Vehicle where
  "mockVehicle1 =
     \<lparr> v_id = ''V-101'', v_plate = ''NDL 123 GP'', v_driver = ''S. Dlamini'',
       lat = Fin (- (262041 / 10000)), lng = Fin (280473 / 10000),
       spendToday = Fin 950, spend7d = Fin 5400, spend30d = Fin 21000 \<rparr>"

definition mockVehicle2 :: Vehicle where
  "mockVehicle2 =
     \<lparr> v_id = ''V-102'', v_plate = ''CPT 456 WC'', v_driver = ''A. Williams'',
       lat = Fin (- (339249 / 10000)), lng = Fin (184241 / 10000),
       spendToday = Fin 1200, spend7d = Fin 7200, spend30d = Fin 28500 \<rparr>"

section \<open>Policies\<close>

subsection \<open>Types\<close>

text \<open>
  \<^verbatim>\<open>
  type Policy = {
    id: string; name: string;
    scope: "Fuel-Only" | "Fuel+Maintenance" | "Fuel+Tolls+Parking";
    dailyLimit: number; perTxnLimit: number; maxFillsPerDay: number;
    startHour: number; endHour: number; requiresMobileUnlock: boolean;
    geofenceCenter?: { lat: number; lng: number };
    geofenceRadiusKm?: number;
    mccAllow?: number[];
    mccBlock?: number[];
  };
  \<close>
  An optional field is an \<open>option\<close>.
\<close>

datatype scope = Fuel_Only | Fuel_Maintenance | Fuel_Tolls_Parking

record LatLng =
  c_lat :: jsnum
  c_lng :: jsnum

record Policy =
  p_id :: string
  p_name :: string
  scope :: scope
  dailyLimit :: jsnum
  perTxnLimit :: jsnum
  maxFillsPerDay :: jsnum
  startHour :: jsnum
  endHour :: jsnum
  requiresMobileUnlock :: bool
  geofenceCenter :: "LatLng option"
  geofenceRadiusKm :: "jsnum option"
  mccAllow :: "jsnum list option"
  mccBlock :: "jsnum list option"

text \<open>\<^verbatim>\<open>mockPolicies\<close>, the collection the portal loads.\<close>

definition mockPolicies :: "Policy list" where
  "mockPolicies =
     [ \<lparr> p_id = ''P-1'', p_name = ''Driver Fuel-Only'', scope = Fuel_Only,
         dailyLimit = Fin 2500, perTxnLimit = Fin 1500, maxFillsPerDay = Fin 2,
         startHour = Fin 6, endHour = Fin 20, requiresMobileUnlock = True,
         geofenceCenter = Some \<lparr> c_lat = Fin (- (262041 / 10000)), c_lng = Fin (280473 / 10000) \<rparr>,
         geofenceRadiusKm = Some (Fin 10),
         mccAllow = Some [Fin 5541, Fin 5542], mccBlock = None \<rparr>,
       \<lparr> p_id = ''P-2'', p_name = ''Maintenance & Fuel'', scope = Fuel_Maintenance,
         dailyLimit = Fin 15000, perTxnLimit = Fin 5000, maxFillsPerDay = Fin 6,
         startHour = Fin 5, endHour = Fin 22, requiresMobileUnlock = False,
         geofenceCenter = None, geofenceRadiusKm = None,
         mccAllow = Some [Fin 5541, Fin 5542, Fin 7538, Fin 5013], mccBlock = None \<rparr> ]"

text \<open>The initial value of the editor's \<^verbatim>\<open>draft\<close> state.\<close>

definition initialDraft :: Policy where
  "initialDraft =
     \<lparr> p_id = ''new'', p_name = ''New Policy'', scope = Fuel_Only,
       dailyLimit = Fin 2500, perTxnLimit = Fin 1500, maxFillsPerDay = Fin 2,
       startHour = Fin 6, endHour = Fin 20, requiresMobileUnlock = True,
       geofenceCenter = Some \<lparr> c_lat = Fin (- (262041 / 10000)), c_lng = Fin (280473 / 10000) \<rparr>,
       geofenceRadiusKm = Some (Fin 10),
       mccAllow = Some [Fin 5541, Fin 5542], mccBlock = None \<rparr>"

subsection \<open>Saving a policy\<close>

text \<open>
  \<^verbatim>\<open>prev.findIndex(pred)\<close>: the index of the first element that satisfies the predicate,
  \<open>-1\<close> when there is none. \<open>findIndexFrom\<close> is the loop, \<open>k\<close> the index of the head.
\<close>

fun findIndexFrom :: "('a \<Rightarrow> bool) \<Rightarrow> 'a list \<Rightarrow> int \<Rightarrow> int" where
  "findIndexFrom P [] k = - 1"
| "findIndexFrom P (x # xs) k = (if P x then k else findIndexFrom P xs (k + 1))"

definition findIndex :: "('a \<Rightarrow> bool) \<Rightarrow> 'a list \<Rightarrow> int" where
  "findIndex P xs = findIndexFrom P xs 0"

text \<open>
  \<^verbatim>\<open>
  const handleSavePolicy = (p: Policy) => {
    setPolicies((prev) => {
      const idx = prev.findIndex((x) => x.id === p.id);
      if (idx >= 0) {
        const copy = [...prev];
        copy[idx] = p;
        return copy;
      }
      return [p, ...prev];
    });
  };
  \<close>
  The state \<^verbatim>\<open>policies\<close> is passed in as \<open>prev\<close> and the new state is returned. There is
  no rejecting branch. The assignment \<^verbatim>\<open>copy[idx] = p\<close> is reached with
  \<open>0 \<le> idx < length prev\<close> only (lemma \<open>findIndex_bound\<close>), where it is \<open>copy[idx := p]\<close>.
\<close>

definition handleSavePolicy :: "Policy \<Rightarrow> Policy list \<Rightarrow> Policy list" where
  "handleSavePolicy p prev =
     (let idx = findIndex (\<lambda>x. p_id x = p_id p) prev
      in if idx \<ge> 0 then (let copy = prev in copy[nat idx := p])
         else p # prev)"

text \<open>
  The decimal digits of a natural number, and the string a template literal makes of an
  integral Number (below \<open>10\<^sup>2\<^sup>1\<close> in absolute value, which covers every time value).
\<close>

fun decimal :: "nat \<Rightarrow> string" where
  "decimal n = (if n < 10 then [''0123456789'' ! n]
                else decimal (n div 10) @ [''0123456789'' ! (n mod 10)])"

declare decimal.simps [simp del]

definition int_to_string :: "int \<Rightarrow> string" where
  "int_to_string i = (if i < 0 then CHR ''-'' # decimal (nat (- i)) else decimal (nat i))"

text \<open>
  \<^verbatim>\<open>
  const save = () => {
    onSave({ ...draft, id: draft.id === "new" ? `P-${Date.now()}` : draft.id });
  };
  \<close>
  \<open>now\<close> is what \<^verbatim>\<open>Date.now()\<close> returns, the clock in milliseconds. \<open>saved_policy\<close> is the
  argument handed to \<^verbatim>\<open>onSave\<close>, which \<^verbatim>\<open>App\<close> binds to \<^verbatim>\<open>handleSavePolicy\<close>.
\<close>

definition saved_policy :: "int \<Rightarrow> Policy \<Rightarrow> Policy" where
  "saved_policy now draft =
     draft\<lparr>p_id := (if p_id draft = ''new'' then ''P-'' @ int_to_string now else p_id draft)\<rparr>"

definition save :: "int \<Rightarrow> Policy \<Rightarrow> Policy list \<Rightarrow> Policy list" where
  "save now draft prev = handleSavePolicy (saved_policy now draft) prev"

subsection \<open>Free-text numeric entry\<close>

text \<open>
  Strings are lists of 8-bit characters, so the model covers the strings whose code units
  are below 256. \<open>is_white_space\<close> is the set \<^verbatim>\<open>WhiteSpace\<close> and \<^verbatim>\<open>LineTerminator\<close> of
  ECMAScript in that range: TAB, LF, VT, FF, CR, SP and NBSP.
\<close>

definition is_white_space :: "char \<Rightarrow> bool" where
  "is_white_space c \<longleftrightarrow>
     c \<in> set [CHR 0x09, CHR 0x0A, CHR 0x0B, CHR 0x0C, CHR 0x0D, CHR 0x20, CHR 0xA0]"

text \<open>\<^verbatim>\<open>String.prototype.trim\<close>.\<close>

definition trim :: "string \<Rightarrow> string" where
  "trim s = rev (dropWhile is_white_space (rev (dropWhile is_white_space s)))"

text \<open>
  \<^verbatim>\<open>s.split(c)\<close> for a separator of one character: the pieces between the separators, in
  order. The empty string gives one empty piece.
\<close>

fun split :: "char \<Rightarrow> string \<Rightarrow> string list" where
  "split c [] = [[]]"
| "split c (x # xs) =
     (if x = c then [] # split c xs
      else (case split c xs of [] \<Rightarrow> [[x]] | t # ts \<Rightarrow> (x # t) # ts))"

text \<open>
  \<^verbatim>\<open>ts.join(c)\<close> for an array of strings, as in the field's displayed value
  \<^verbatim>\<open>(draft.mccAllow ?? []).join(",")\<close>: the pieces with the separator between them.
\<close>

fun join :: "char \<Rightarrow> string list \<Rightarrow> string" where
  "join c [] = []"
| "join c [t] = t"
| "join c (t # ts) = t @ c # join c ts"

text \<open>
  The value of a digit in a base from 2 to 16, \<open>None\<close> for a character that is not a digit
  of the base.
\<close>

definition digit_table :: "(char \<times> nat) list" where
  "digit_table =
     [(CHR ''0'', 0), (CHR ''1'', 1), (CHR ''2'', 2), (CHR ''3'', 3), (CHR ''4'', 4),
      (CHR ''5'', 5), (CHR ''6'', 6), (CHR ''7'', 7), (CHR ''8'', 8), (CHR ''9'', 9),
      (CHR ''a'', 10), (CHR ''b'', 11), (CHR ''c'', 12), (CHR ''d'', 13), (CHR ''e'', 14),
      (CHR ''f'', 15), (CHR ''A'', 10), (CHR ''B'', 11), (CHR ''C'', 12), (CHR ''D'', 13),
      (CHR ''E'', 14), (CHR ''F'', 15)]"

definition digit_value :: "nat \<Rightarrow> char \<Rightarrow> nat option" where
  "digit_value base c =
     (case map_of digit_table c of
        None \<Rightarrow> None
      | Some d \<Rightarrow> if d < base then Some d else None)"

definition is_digit :: "nat \<Rightarrow> char \<Rightarrow> bool" where
  "is_digit base c \<longleftrightarrow> digit_value base c \<noteq> None"

text \<open>The number a digit string denotes; a non-digit counts as 0 and is excluded by the callers.\<close>

definition digits_value :: "nat \<Rightarrow> string \<Rightarrow> nat" where
  "digits_value base ds =
     foldl (\<lambda>a c. a * base + (case digit_value base c of None \<Rightarrow> 0 | Some d \<Rightarrow> d)) 0 ds"

text \<open>A non-empty string of digits of the base.\<close>

definition digits :: "nat \<Rightarrow> string \<Rightarrow> nat option" where
  "digits base ds =
     (if ds \<noteq> [] \<and> list_all (is_digit base) ds then Some (digits_value base ds) else None)"

text \<open>
  \<^verbatim>\<open>NonDecimalIntegerLiteral\<close>: \<^verbatim>\<open>0b\<close>, \<^verbatim>\<open>0o\<close> or \<^verbatim>\<open>0x\<close> (either case) and at least one digit
  of the base.
\<close>

definition non_decimal_literal :: "string \<Rightarrow> nat option" where
  "non_decimal_literal s =
     (case s of
        z # p # ds \<Rightarrow>
          if z \<noteq> CHR ''0'' then None
          else if p = CHR ''b'' \<or> p = CHR ''B'' then digits 2 ds
          else if p = CHR ''o'' \<or> p = CHR ''O'' then digits 8 ds
          else if p = CHR ''x'' \<or> p = CHR ''X'' then digits 16 ds
          else None
      | _ \<Rightarrow> None)"

text \<open>\<^verbatim>\<open>SignedInteger\<close>: decimal digits with an optional sign.\<close>

definition signed_integer :: "string \<Rightarrow> int option" where
  "signed_integer s =
     (case s of
        [] \<Rightarrow> None
      | c # r \<Rightarrow>
          if c = CHR ''+'' then map_option int (digits 10 r)
          else if c = CHR ''-'' then map_option (\<lambda>n. - int n) (digits 10 r)
          else map_option int (digits 10 s))"

text \<open>An optional \<^verbatim>\<open>ExponentPart\<close> that ends the literal: nothing, or \<^verbatim>\<open>e\<close> and a signed integer.\<close>

definition exponent_part :: "string \<Rightarrow> int option" where
  "exponent_part s =
     (case s of
        [] \<Rightarrow> Some 0
      | c # r \<Rightarrow> if c = CHR ''e'' \<or> c = CHR ''E'' then signed_integer r else None)"

text \<open>\<open>n \<times> 10\<^sup>e\<close> as a rational.\<close>

definition scale10 :: "nat \<Rightarrow> int \<Rightarrow> rat" where
  "scale10 n e = (if e \<ge> 0 then of_nat n * 10 ^ nat e else of_nat n / 10 ^ nat (- e))"

text \<open>
  \<^verbatim>\<open>StrUnsignedDecimalLiteral\<close> without \<^verbatim>\<open>Infinity\<close>: digits, an optional fraction, an
  optional exponent, with a digit before or after the point. The result is the
  mathematical value of the literal.
\<close>

definition unsigned_decimal :: "string \<Rightarrow> rat option" where
  "unsigned_decimal s =
     (let ip = takeWhile (is_digit 10) s; r1 = dropWhile (is_digit 10) s
      in case r1 of
           [] \<Rightarrow> if ip = [] then None else Some (scale10 (digits_value 10 ip) 0)
         | c # r2 \<Rightarrow>
             if c = CHR ''.'' then
               (let fp = takeWhile (is_digit 10) r2; r3 = dropWhile (is_digit 10) r2
                in if ip = [] \<and> fp = [] then None
                   else map_option (\<lambda>e. scale10 (digits_value 10 (ip @ fp)) (e - int (length fp)))
                          (exponent_part r3))
             else if ip = [] then None
             else map_option (scale10 (digits_value 10 ip)) (exponent_part r1))"

text \<open>
  \<^verbatim>\<open>StrDecimalLiteral\<close>: an optional sign and \<^verbatim>\<open>Infinity\<close> or an unsigned decimal literal.
  A negated zero is the negative zero.
\<close>

definition unsigned_literal :: "bool \<Rightarrow> string \<Rightarrow> jsnum option" where
  "unsigned_literal neg u =
     (if u = ''Infinity'' then Some (if neg then NegInfinity else PosInfinity)
      else map_option (\<lambda>q. if neg then (if q = 0 then NegZero else Fin (- q)) else Fin q)
             (unsigned_decimal u))"

definition str_decimal_literal :: "string \<Rightarrow> jsnum option" where
  "str_decimal_literal s =
     (case s of
        [] \<Rightarrow> None
      | c # u \<Rightarrow>
          if c = CHR ''+'' then unsigned_literal False u
          else if c = CHR ''-'' then unsigned_literal True u
          else unsigned_literal False s)"

text \<open>
  \<^verbatim>\<open>Number(s)\<close> for a string, ECMAScript's \<^verbatim>\<open>StringToNumber\<close>: white space around the
  literal is skipped, the string that is empty or all white space is \<open>+0\<close>, a string that
  is not a \<^verbatim>\<open>StringNumericLiteral\<close> is \<^verbatim>\<open>NaN\<close>.
\<close>

definition Number :: "string \<Rightarrow> jsnum" where
  "Number s =
     (let t = trim s
      in if t = [] then Fin 0
         else (case non_decimal_literal t of
                 Some n \<Rightarrow> Fin (of_nat n)
               | None \<Rightarrow> (case str_decimal_literal t of Some v \<Rightarrow> v | None \<Rightarrow> NaN)))"

text \<open>
  The \<^verbatim>\<open>onChange\<close> handler of the field "MCC Allowlist (comma separated)":
  \<^verbatim>\<open>
  update(
    "mccAllow",
    e.target.value
      .split(",")
      .map((n) => Number(n.trim()))
      .filter((n) => !Number.isNaN(n))
  )
  \<close>
  \<open>parseMccAllow\<close> is the list computed from the field's text, \<open>onChange_mccAllow\<close> the
  new draft.
\<close>

definition parseMccAllow :: "string \<Rightarrow> jsnum list" where
  "parseMccAllow v =
     filter (\<lambda>n. \<not> isNaN n) (map (\<lambda>n. Number (trim n)) (split CHR '','' v))"

definition onChange_mccAllow :: "string \<Rightarrow> Policy \<Rightarrow> Policy" where
  "onChange_mccAllow v d = d\<lparr>mccAllow := Some (parseMccAllow v)\<rparr>"

text \<open>
  The \<^verbatim>\<open>onChange\<close> handlers of the fields "Daily Limit", "Per-Txn Limit", "Start Hour"
  and "End Hour": \<^verbatim>\<open>update("perTxnLimit", Number(e.target.value))\<close> and its siblings.
\<close>

definition onChange_dailyLimit :: "string \<Rightarrow> Policy \<Rightarrow> Policy" where
  "onChange_dailyLimit v d = d\<lparr>dailyLimit := Number v\<rparr>"

definition onChange_perTxnLimit :: "string \<Rightarrow> Policy \<Rightarrow> Policy" where
  "onChange_perTxnLimit v d = d\<lparr>perTxnLimit := Number v\<rparr>"

definition onChange_startHour :: "string \<Rightarrow> Policy \<Rightarrow> Policy" where
  "onChange_startHour v d = d\<lparr>startHour := Number v\<rparr>"

definition onChange_endHour :: "string \<Rightarrow> Policy \<Rightarrow> Policy" where
  "onChange_endHour v d = d\<lparr>endHour := Number v\<rparr>"

subsection \<open>The validity conditions of the specification\<close>

text \<open>
  \<^verbatim>\<open>a < b\<close> on Numbers: false when either side is \<^verbatim>\<open>NaN\<close>; the two zeros are equal. The
  source compares no policy field; the relation states the specification's conditions
  \<open>perTxnLimit \<le> dailyLimit\<close> and \<open>startHour < endHour\<close> on stored policies.
\<close>

fun finite_value :: "jsnum \<Rightarrow> rat" where
  "finite_value (Fin q) = q"
| "finite_value _ = 0"

fun js_less :: "jsnum \<Rightarrow> jsnum \<Rightarrow> bool" where
  "js_less NaN _ = False"
| "js_less _ NaN = False"
| "js_less PosInfinity _ = False"
| "js_less _ NegInfinity = False"
| "js_less NegInfinity _ = True"
| "js_less _ PosInfinity = True"
| "js_less a b = (finite_value a < finite_value b)"

definition js_le :: "jsnum \<Rightarrow> jsnum \<Rightarrow> bool" where
  "js_le a b \<longleftrightarrow> \<not> isNaN a \<and> \<not> isNaN b \<and> \<not> js_less b a"

section \<open>Properties of the exceptions queue\<close>

lemma filter_string_of: "status_string s = filter_string (filter_of t) \<longleftrightarrow> s = t"
  by (cases s; cases t) simp_all

lemma filter_string_of_not_All: "filter_string (filter_of t) \<noteq> ''All''"
  by (cases t) simp_all

lemma filtered_of: "filtered (filter_of t) xs = filter (\<lambda>e. status e = t) xs"
  by (simp add: filtered_def filter_string_of filter_string_of_not_All)

lemma filtered_All: "filtered FilterAll xs = xs"
  by (simp add: filtered_def)

lemma subseq_all_filter:
  assumes "subseq ys xs" and "\<forall>e\<in>set ys. P e"
  shows "subseq ys (filter P xs)"
proof -
  from assms(1) have "subseq (filter P ys) (filter P xs)"
    by simp
  moreover from assms(2) have "filter P ys = ys"
    by (simp add: filter_id_conv)
  ultimately show ?thesis
    by simp
qed

lemma handle_length: "length (handleExceptionAction i act prev) = length prev"
  by (simp add: handleExceptionAction_def)

lemma handle_nth:
  "k < length prev \<Longrightarrow>
   handleExceptionAction i act prev ! k =
     (if e_id (prev ! k) = i then (prev ! k)\<lparr>status := action_status act\<rparr> else prev ! k)"
  by (simp add: handleExceptionAction_def)

lemma handle_no_match:
  "\<forall>e\<in>set prev. e_id e \<noteq> i \<Longrightarrow> handleExceptionAction i act prev = prev"
  by (simp add: handleExceptionAction_def map_idI)

lemma distinct_ids_unique:
  assumes "distinct (map e_id prev)" "j < length prev" "k < length prev"
    and "e_id (prev ! j) = e_id (prev ! k)"
  shows "j = k"
proof -
  from assms(2-4) have "map e_id prev ! j = map e_id prev ! k"
    by simp
  moreover have "j < length (map e_id prev)" "k < length (map e_id prev)"
    using assms(2,3) by simp_all
  ultimately show ?thesis
    using assms(1) nth_eq_iff_index_eq by blast
qed

section \<open>Properties of saving a policy\<close>

lemma findIndexFrom_eq:
  "findIndexFrom P xs k =
     (if \<exists>x\<in>set xs. P x then k + int (length (takeWhile (\<lambda>x. \<not> P x) xs)) else - 1)"
  by (induction xs arbitrary: k) auto

lemma findIndex_eq:
  "findIndex P xs =
     (if \<exists>x\<in>set xs. P x then int (length (takeWhile (\<lambda>x. \<not> P x) xs)) else - 1)"
  by (simp add: findIndex_def findIndexFrom_eq)

lemma takeWhile_lt: "\<exists>x\<in>set xs. P x \<Longrightarrow> length (takeWhile (\<lambda>x. \<not> P x) xs) < length xs"
  by (induction xs) auto

lemma findIndex_bound: "findIndex P xs \<ge> 0 \<Longrightarrow> nat (findIndex P xs) < length xs"
  by (auto simp: findIndex_eq takeWhile_lt split: if_splits)

lemma takeWhile_first:
  assumes "i < length xs" "P (xs ! i)" "\<forall>j<i. \<not> P (xs ! j)"
  shows "length (takeWhile (\<lambda>x. \<not> P x) xs) = i"
  using assms
proof (induction xs arbitrary: i)
  case Nil
  then show ?case by simp
next
  case (Cons x xs)
  show ?case
  proof (cases i)
    case 0
    with Cons.prems show ?thesis by simp
  next
    case (Suc i')
    with Cons.prems have "\<not> P x" by auto
    moreover have "length (takeWhile (\<lambda>x. \<not> P x) xs) = i'"
      using Cons.prems Suc by (intro Cons.IH) auto
    ultimately show ?thesis using Suc by simp
  qed
qed

lemma lt10_cases:
  "(d::nat) < 10 \<Longrightarrow>
   d = 0 \<or> d = 1 \<or> d = 2 \<or> d = 3 \<or> d = 4 \<or> d = 5 \<or> d = 6 \<or> d = 7 \<or> d = 8 \<or> d = 9"
  by arith

lemma digit_value_nth: "d < 10 \<Longrightarrow> digit_value 10 (''0123456789'' ! d) = Some d"
proof -
  assume "d < 10"
  from lt10_cases [OF this] show ?thesis
    by (elim disjE) (simp_all add: digit_value_def digit_table_def)
qed

lemma digits_value_snoc:
  "digits_value b (ds @ [c]) =
     digits_value b ds * b + (case digit_value b c of None \<Rightarrow> 0 | Some d \<Rightarrow> d)"
  by (simp add: digits_value_def)

lemma digits_value_decimal: "digits_value 10 (decimal n) = n"
proof (induction n rule: decimal.induct)
  case (1 n)
  show ?case
  proof (cases "n < 10")
    case True
    then show ?thesis
      using digits_value_snoc [of 10 "[]" "''0123456789'' ! n"]
      by (simp add: decimal.simps [of n] digit_value_nth digits_value_def)
  next
    case False
    with 1 have "digits_value 10 (decimal (n div 10)) = n div 10"
      by simp
    with False show ?thesis
      by (simp add: decimal.simps [of n] digits_value_snoc digit_value_nth)
  qed
qed

lemma is_digit_nth: "d < 10 \<Longrightarrow> is_digit 10 (''0123456789'' ! d)"
  by (simp add: is_digit_def digit_value_nth)

lemma decimal_digits: "decimal n \<noteq> [] \<and> list_all (is_digit 10) (decimal n)"
proof (induction n rule: decimal.induct)
  case (1 n)
  show ?case
  proof (cases "n < 10")
    case True
    then show ?thesis
      by (simp add: decimal.simps [of n] is_digit_nth)
  next
    case False
    with 1 show ?thesis
      by (simp add: decimal.simps [of n] is_digit_nth)
  qed
qed

lemma minus_not_digit: "\<not> is_digit 10 CHR ''-''"
  by (simp add: is_digit_def digit_value_def digit_table_def)

lemma decimal_inj: "decimal m = decimal n \<Longrightarrow> m = n"
  by (metis digits_value_decimal)

lemma decimal_no_minus: "decimal n \<noteq> CHR ''-'' # s"
proof
  assume "decimal n = CHR ''-'' # s"
  with decimal_digits [of n] have "is_digit 10 CHR ''-''"
    by simp
  with minus_not_digit show False ..
qed

lemma int_to_string_inj: "int_to_string i = int_to_string j \<Longrightarrow> i = j"
proof -
  assume eq: "int_to_string i = int_to_string j"
  consider (nn) "i < 0" "j < 0" | (np) "i < 0" "\<not> j < 0"
    | (pn) "\<not> i < 0" "j < 0" | (pp) "\<not> i < 0" "\<not> j < 0"
    by blast
  then show "i = j"
  proof cases
    case nn
    with eq have "decimal (nat (- i)) = decimal (nat (- j))"
      by (simp add: int_to_string_def)
    then have "nat (- i) = nat (- j)"
      by (rule decimal_inj)
    with nn show ?thesis by simp
  next
    case np
    with eq have "decimal (nat j) = CHR ''-'' # decimal (nat (- i))"
      by (simp add: int_to_string_def)
    with decimal_no_minus show ?thesis by blast
  next
    case pn
    with eq have "decimal (nat i) = CHR ''-'' # decimal (nat (- j))"
      by (simp add: int_to_string_def)
    with decimal_no_minus show ?thesis by blast
  next
    case pp
    with eq have "decimal (nat i) = decimal (nat j)"
      by (simp add: int_to_string_def)
    then have "nat i = nat j"
      by (rule decimal_inj)
    with pp show ?thesis by simp
  qed
qed

lemma handleSavePolicy_match:
  "\<exists>x\<in>set prev. p_id x = p_id p \<Longrightarrow>
   handleSavePolicy p prev = prev[length (takeWhile (\<lambda>x. p_id x \<noteq> p_id p) prev) := p]"
  by (simp add: handleSavePolicy_def findIndex_eq)

lemma handleSavePolicy_no_match:
  "\<forall>x\<in>set prev. p_id x \<noteq> p_id p \<Longrightarrow> handleSavePolicy p prev = p # prev"
  by (simp add: handleSavePolicy_def findIndex_eq)

lemma handleSavePolicy_first:
  assumes "i < length prev" "p_id (prev ! i) = p_id p" "\<forall>j<i. p_id (prev ! j) \<noteq> p_id p"
  shows "handleSavePolicy p prev = prev[i := p]"
proof -
  from assms(1,2) have ex: "\<exists>x\<in>set prev. p_id x = p_id p"
    using nth_mem by blast
  have "length (takeWhile (\<lambda>x. \<not> p_id x = p_id p) prev) = i"
    using assms by (intro takeWhile_first) auto
  with ex show ?thesis
    by (simp add: handleSavePolicy_match)
qed

lemma first_match_exists:
  assumes "\<exists>x\<in>set xs. P x"
  shows "\<exists>i<length xs. P (xs ! i) \<and> (\<forall>j<i. \<not> P (xs ! j))"
proof -
  let ?i = "length (takeWhile (\<lambda>x. \<not> P x) xs)"
  have lt: "?i < length xs"
    using assms by (rule takeWhile_lt)
  then have "P (xs ! ?i)"
    using nth_length_takeWhile [of "\<lambda>x. \<not> P x" xs] by simp
  moreover have "\<forall>j<?i. \<not> P (xs ! j)"
  proof (intro allI impI)
    fix j assume j: "j < ?i"
    then have "takeWhile (\<lambda>x. \<not> P x) xs ! j = xs ! j"
      by (rule takeWhile_nth)
    moreover from j have "takeWhile (\<lambda>x. \<not> P x) xs ! j \<in> set (takeWhile (\<lambda>x. \<not> P x) xs)"
      by simp
    ultimately show "\<not> P (xs ! j)"
      using set_takeWhileD by metis
  qed
  ultimately show ?thesis
    using lt by blast
qed

lemma handleSavePolicy_member: "p \<in> set (handleSavePolicy p prev)"
proof (cases "\<exists>x\<in>set prev. p_id x = p_id p")
  case True
  then have "length (takeWhile (\<lambda>x. \<not> p_id x = p_id p) prev) < length prev"
    by (rule takeWhile_lt)
  with True show ?thesis
    by (simp add: handleSavePolicy_match set_update_memI)
next
  case False
  then show ?thesis
    by (simp add: handleSavePolicy_no_match)
qed

lemma handleSavePolicy_subset: "set (handleSavePolicy p prev) \<subseteq> insert p (set prev)"
proof (cases "\<exists>x\<in>set prev. p_id x = p_id p")
  case True
  then show ?thesis
    using set_update_subset_insert by (simp add: handleSavePolicy_match)
next
  case False
  then show ?thesis
    by (simp add: handleSavePolicy_no_match)
qed

lemma saved_policy_new:
  "p_id draft = ''new'' \<Longrightarrow> saved_policy now draft = draft\<lparr>p_id := ''P-'' @ int_to_string now\<rparr>"
  by (simp add: saved_policy_def)

lemma saved_policy_old: "p_id draft \<noteq> ''new'' \<Longrightarrow> saved_policy now draft = draft"
  by (simp add: saved_policy_def)

lemma distinct_p_ids_unique:
  assumes "distinct (map p_id prev)" "j < length prev" "k < length prev"
    and "p_id (prev ! j) = p_id (prev ! k)"
  shows "j = k"
proof -
  from assms(2-4) have "map p_id prev ! j = map p_id prev ! k"
    by simp
  moreover have "j < length (map p_id prev)" "k < length (map p_id prev)"
    using assms(2,3) by simp_all
  ultimately show ?thesis
    using assms(1) nth_eq_iff_index_eq by blast
qed

lemma int_to_string_example: "int_to_string 1730000000000 = ''1730000000000''"
  by (simp add: int_to_string_def decimal.simps)

lemma handleSavePolicy_match_first:
  assumes "\<exists>x\<in>set prev. p_id x = p_id p"
  shows "\<exists>i<length prev. p_id (prev ! i) = p_id p \<and> (\<forall>j<i. p_id (prev ! j) \<noteq> p_id p) \<and>
           handleSavePolicy p prev = prev[i := p]"
proof -
  from first_match_exists [of prev "\<lambda>x. p_id x = p_id p", OF assms]
  obtain i where i: "i < length prev" "p_id (prev ! i) = p_id p"
    "\<forall>j<i. p_id (prev ! j) \<noteq> p_id p"
    by blast
  then have "handleSavePolicy p prev = prev[i := p]"
    by (rule handleSavePolicy_first)
  with i show ?thesis
    by blast
qed

lemma saved_policy_eq:
  "saved_policy now d =
     d\<lparr>p_id := (if p_id d = ''new'' then ''P-'' @ int_to_string now else p_id d)\<rparr>"
  by (simp add: saved_policy_def)

section \<open>Properties of the MCC allowlist field\<close>

lemmas Number_eval =
  Number_def trim_def is_white_space_def non_decimal_literal_def str_decimal_literal_def
  unsigned_literal_def unsigned_decimal_def exponent_part_def signed_integer_def digits_def
  is_digit_def digit_value_def digit_table_def digits_value_def scale10_def

lemma split_not_Nil: "split c s \<noteq> []"
  by (induction s) (auto split: list.splits)

lemma join_Cons: "ts \<noteq> [] \<Longrightarrow> join c (t # ts) = t @ c # join c ts"
  by (cases ts) simp_all

lemma join_split: "join c (split c s) = s"
proof (induction s)
  case Nil
  show ?case by simp
next
  case (Cons x xs)
  show ?case
  proof (cases "x = c")
    case True
    with Cons show ?thesis
      by (simp add: join_Cons split_not_Nil)
  next
    case False
    obtain t ts where sp: "split c xs = t # ts"
      using split_not_Nil [of c xs] by (cases "split c xs") auto
    with Cons have "join c (t # ts) = xs"
      by simp
    then have "join c ((x # t) # ts) = x # xs"
      by (cases ts) simp_all
    with False sp show ?thesis
      by simp
  qed
qed

lemma split_no_separator: "t \<in> set (split c s) \<Longrightarrow> c \<notin> set t"
proof (induction s arbitrary: t)
  case Nil
  then show ?case by simp
next
  case (Cons x xs)
  show ?case
  proof (cases "x = c")
    case True
    with Cons show ?thesis by auto
  next
    case False
    obtain u us where sp: "split c xs = u # us"
      using split_not_Nil [of c xs] by (cases "split c xs") auto
    with False Cons.prems have "t = x # u \<or> t \<in> set us"
      by simp
    then show ?thesis
    proof
      assume "t = x # u"
      moreover have "c \<notin> set u"
        using Cons.IH [of u] sp by simp
      ultimately show ?thesis using False by auto
    next
      assume "t \<in> set us"
      then show ?thesis
        using Cons.IH [of t] sp by simp
    qed
  qed
qed

lemma split_append_separator: "split c (a @ c # b) = split c a @ split c b"
proof (induction a)
  case Nil
  show ?case by simp
next
  case (Cons x xs)
  obtain t ts where sp: "split c xs = t # ts"
    using split_not_Nil [of c xs] by (cases "split c xs") auto
  with Cons show ?case
    by simp
qed

lemma split_no_occurrence: "c \<notin> set s \<Longrightarrow> split c s = [s]"
  by (induction s) auto

lemma parseMccAllow_append:
  "parseMccAllow (a @ CHR '','' # b) = parseMccAllow a @ parseMccAllow b"
  by (simp add: parseMccAllow_def split_append_separator)

lemma trim_Nil: "trim [] = []"
  by (simp add: trim_def)

lemma Number_Nil: "Number [] = Fin 0"
  by (simp add: Number_def trim_Nil)

lemma parseMccAllow_Nil: "parseMccAllow [] = [Fin 0]"
  by (simp add: parseMccAllow_def trim_Nil Number_Nil)

lemma trim_spaces: "trim (replicate n CHR '' '') = []"
proof -
  have "dropWhile is_white_space (replicate n CHR '' '') = []"
    by (simp add: is_white_space_def)
  then show ?thesis
    by (simp add: trim_def)
qed

lemma parseMccAllow_spaces: "parseMccAllow (replicate n CHR '' '') = [Fin 0]"
proof -
  have "CHR '','' \<notin> set (replicate n CHR '' '')"
    by simp
  then have "split CHR '','' (replicate n CHR '' '') = [replicate n CHR '' '']"
    by (rule split_no_occurrence)
  then show ?thesis
    by (simp add: parseMccAllow_def trim_spaces trim_Nil Number_Nil)
qed

lemma parseMccAllow_filter:
  "parseMccAllow v =
     map (\<lambda>t. Number (trim t)) (filter (\<lambda>t. \<not> isNaN (Number (trim t))) (split CHR '','' v))"
  by (simp add: parseMccAllow_def filter_map comp_def)

lemma split_example: "split CHR '','' ''5541, abc,7'' = [''5541'', '' abc'', ''7'']"
  by simp

lemma Number_examples:
  "Number (trim ''5541'') = Fin 5541" "Number (trim '' abc'') = NaN" "Number (trim ''7'') = Fin 7"
  by (simp_all add: Number_eval)

section \<open>Properties of the map panel\<close>

lemma geojson_eq: "geojson vs w =
   \<lparr> fc_type = ''FeatureCollection'',
     features = map (\<lambda>v.
       \<lparr> f_type = ''Feature'',
         properties = \<lparr> f_id = v_id v, f_plate = v_plate v, f_driver = v_driver v,
                        spend = window_spend w v \<rparr>,
         geometry = \<lparr> g_type = ''Point'', coordinates = [lng v, lat v] \<rparr> \<rparr>) vs \<rparr>"
  by (cases w) (simp_all add: geojson_def vehiclesToGeoJSON_def)

section \<open>The claims\<close>

text \<open>
  C3. Filtering by a status returns exactly the subsequence of the items with that status,
  in their original order: the result is a subsequence of the input, all its items have
  the status, and every subsequence of the input whose items all have the status is a
  subsequence of the result. The filter "All" returns the input unchanged. This holds for
  Open, Approved and Denied alike.
\<close>

theorem filtered_exact_subsequence:
  "filtered FilterAll xs = xs \<and>
   filtered (filter_of s) xs = filter (\<lambda>e. status e = s) xs \<and>
   subseq (filtered (filter_of s) xs) xs \<and>
   (\<forall>e\<in>set (filtered (filter_of s) xs). status e = s) \<and>
   (\<forall>ys. subseq ys xs \<and> (\<forall>e\<in>set ys. status e = s) \<longrightarrow>
           subseq ys (filtered (filter_of s) xs))"
proof -
  have "\<forall>ys. subseq ys xs \<and> (\<forall>e\<in>set ys. status e = s) \<longrightarrow>
          subseq ys (filtered (filter_of s) xs)"
    by (simp add: filtered_of subseq_all_filter)
  then show ?thesis
    by (simp add: filtered_All filtered_of)
qed

theorem filtered_exact_subsequence_witness:
  "subseq [mockException1 ''t'']
     (filtered FilterOpen [mockException1 ''t'', (mockException2 ''u'')\<lparr>status := Denied\<rparr>]) \<and>
   filtered FilterOpen [mockException1 ''t'', (mockException2 ''u'')\<lparr>status := Denied\<rparr>]
     = [mockException1 ''t'']"
proof -
  let ?xs = "[mockException1 ''t'', (mockException2 ''u'')\<lparr>status := Denied\<rparr>]"
  have sub: "subseq [mockException1 ''t''] ?xs"
    by simp
  have op: "\<forall>e\<in>set [mockException1 ''t'']. status e = Open"
    by (simp add: mockException1_def)
  from filtered_exact_subsequence [of ?xs Open] sub op
  have "subseq [mockException1 ''t''] (filtered FilterOpen ?xs)"
    by (metis filter_of.simps(1))
  moreover from filtered_exact_subsequence [of ?xs Open]
  have "filtered FilterOpen ?xs = [mockException1 ''t'']"
    by (simp add: mockException1_def)
  ultimately show ?thesis
    by simp
qed

text \<open>
  C8. A triage action keeps the length and the order of the collection. An item whose id
  differs from the given id is unchanged; an item whose id matches is the old item with
  its status replaced by the decision, so no other field changes. When no id matches, the
  collection is unchanged, and the action has no failing branch. When the ids of the
  collection are distinct, at most one item is changed.
\<close>

theorem handleExceptionAction_frame:
  "length (handleExceptionAction i act prev) = length prev \<and>
   (\<forall>k<length prev. e_id (prev ! k) \<noteq> i \<longrightarrow> handleExceptionAction i act prev ! k = prev ! k) \<and>
   (\<forall>k<length prev. e_id (prev ! k) = i \<longrightarrow>
      handleExceptionAction i act prev ! k = (prev ! k)\<lparr>status := action_status act\<rparr>) \<and>
   (\<forall>k<length prev.
      handleExceptionAction i act prev ! k =
        (prev ! k)\<lparr>status := status (handleExceptionAction i act prev ! k)\<rparr>) \<and>
   ((\<forall>e\<in>set prev. e_id e \<noteq> i) \<longrightarrow> handleExceptionAction i act prev = prev) \<and>
   (distinct (map e_id prev) \<longrightarrow>
      (\<forall>j<length prev. \<forall>k<length prev.
         handleExceptionAction i act prev ! j \<noteq> prev ! j \<and>
         handleExceptionAction i act prev ! k \<noteq> prev ! k \<longrightarrow> j = k))"
proof -
  have single: "j = k"
    if d: "distinct (map e_id prev)" and j: "j < length prev" and k: "k < length prev"
      and cj: "handleExceptionAction i act prev ! j \<noteq> prev ! j"
      and ck: "handleExceptionAction i act prev ! k \<noteq> prev ! k" for j k
  proof -
    from j cj have "e_id (prev ! j) = i"
      by (simp add: handle_nth split: if_splits)
    moreover from k ck have "e_id (prev ! k) = i"
      by (simp add: handle_nth split: if_splits)
    ultimately show ?thesis
      using d j k distinct_ids_unique by metis
  qed
  have "distinct (map e_id prev) \<longrightarrow>
      (\<forall>j<length prev. \<forall>k<length prev.
         handleExceptionAction i act prev ! j \<noteq> prev ! j \<and>
         handleExceptionAction i act prev ! k \<noteq> prev ! k \<longrightarrow> j = k)"
    using single by blast
  moreover have "(\<forall>e\<in>set prev. e_id e \<noteq> i) \<longrightarrow> handleExceptionAction i act prev = prev"
    by (simp add: handle_no_match)
  ultimately show ?thesis
    by (simp add: handle_length handle_nth)
qed

theorem handleExceptionAction_frame_witness:
  "handleExceptionAction ''E-9002'' ActionApproved [mockException1 ''t'', mockException2 ''u'']
     = [mockException1 ''t'', (mockException2 ''u'')\<lparr>status := Approved\<rparr>] \<and>
   handleExceptionAction ''E-9009'' ActionApproved [mockException1 ''t'', mockException2 ''u'']
     = [mockException1 ''t'', mockException2 ''u'']"
proof -
  let ?prev = "[mockException1 ''t'', mockException2 ''u'']"
  let ?r = "handleExceptionAction ''E-9002'' ActionApproved ?prev"
  have len: "length ?r = 2"
    using handleExceptionAction_frame [of "''E-9002''" ActionApproved ?prev] by simp
  have k0: "?r ! 0 = mockException1 ''t''"
    using handleExceptionAction_frame [of "''E-9002''" ActionApproved ?prev]
    by (simp add: mockException1_def)
  have "e_id (?prev ! 1) = ''E-9002''" "(1::nat) < length ?prev"
    by (simp_all add: mockException2_def)
  with handleExceptionAction_frame [of "''E-9002''" ActionApproved ?prev]
  have "?r ! 1 = (?prev ! 1)\<lparr>status := action_status ActionApproved\<rparr>"
    by blast
  then have k1: "?r ! 1 = (mockException2 ''u'')\<lparr>status := Approved\<rparr>"
    by simp
  have first: "?r = [mockException1 ''t'', (mockException2 ''u'')\<lparr>status := Approved\<rparr>]"
    using len k0 k1 by (simp add: list_eq_iff_nth_eq less_Suc_eq numeral_2_eq_2)
  have "\<forall>e\<in>set ?prev. e_id e \<noteq> ''E-9009''"
    by (simp add: mockException1_def mockException2_def)
  with handleExceptionAction_frame [of "''E-9009''" ActionApproved ?prev]
  have "handleExceptionAction ''E-9009'' ActionApproved ?prev = ?prev"
    by blast
  with first show ?thesis
    by simp
qed

text \<open>
  C1, as the code has it. A triage action does not look at the current status and never
  fails: every item whose id matches takes the decision as its new status, whether it was
  Open, Approved or Denied, and every other item keeps its status. So the transitions
  performed go from any status to Approved or to Denied; no item is ever moved to a status
  other than these two.
\<close>

theorem handleExceptionAction_overwrites_status:
  "(\<forall>k<length prev. e_id (prev ! k) = i \<longrightarrow>
      status (handleExceptionAction i act prev ! k) = action_status act) \<and>
   (\<forall>k<length prev. e_id (prev ! k) \<noteq> i \<longrightarrow>
      status (handleExceptionAction i act prev ! k) = status (prev ! k)) \<and>
   (\<forall>k<length prev. status (handleExceptionAction i act prev ! k) \<noteq> status (prev ! k) \<longrightarrow>
      status (handleExceptionAction i act prev ! k) \<in> {Approved, Denied})"
proof -
  have "action_status act \<in> {Approved, Denied}"
    by (cases act) simp_all
  then show ?thesis
    by (simp add: handle_nth)
qed

theorem handleExceptionAction_overwrites_status_witness:
  "status (handleExceptionAction ''E-9001'' ActionDenied
             [(mockException1 ''t'')\<lparr>status := Approved\<rparr>] ! 0) = Denied"
proof -
  let ?prev = "[(mockException1 ''t'')\<lparr>status := Approved\<rparr>]"
  have "(0::nat) < length ?prev" "e_id (?prev ! 0) = ''E-9001''"
    by (simp_all add: mockException1_def)
  with handleExceptionAction_overwrites_status [of ?prev "''E-9001''" ActionDenied]
  have "status (handleExceptionAction ''E-9001'' ActionDenied ?prev ! 0) = action_status ActionDenied"
    by blast
  then show ?thesis
    by simp
qed

text \<open>
  C1 as stated fails: the first mock exception is approved and then denied. The second
  action is applied to an item whose status is Approved, it does not fail, and the status
  becomes Denied.
\<close>

theorem triage_terminal_counterexample:
  "map status (handleExceptionAction ''E-9001'' ActionApproved [mockException1 ''t''])
     = [Approved] \<and>
   map status (handleExceptionAction ''E-9001'' ActionDenied
                 (handleExceptionAction ''E-9001'' ActionApproved [mockException1 ''t'']))
     = [Denied]"
  by (simp add: handleExceptionAction_def mockException1_def)

text \<open>
  C4, as the code has it. When some stored policy has the id of the saved policy, the save
  replaces the first such entry at its position: the collection keeps its length, the entry
  at that position is the saved policy and every other entry is unchanged. With distinct
  stored ids that entry is the only one with the id. A draft whose id is the placeholder
  "new" is handed to the save with the id "P-" followed by the decimal clock value instead
  of "new", and different clock values give different ids. The id is not compared with the
  stored ids before it is used: when no stored policy has it, the draft is put in front of
  the collection under it; when a stored policy has it already, the draft replaces the
  first such policy and the collection keeps its length. A draft with any other id is saved
  as it is.
\<close>

theorem handleSavePolicy_replaces_in_place:
  "((\<exists>x\<in>set prev. p_id x = p_id p) \<longrightarrow>
     (\<exists>i<length prev. p_id (prev ! i) = p_id p \<and> (\<forall>j<i. p_id (prev ! j) \<noteq> p_id p) \<and>
        (distinct (map p_id prev) \<longrightarrow> (\<forall>k<length prev. p_id (prev ! k) = p_id p \<longrightarrow> k = i)) \<and>
        handleSavePolicy p prev = prev[i := p] \<and>
        length (handleSavePolicy p prev) = length prev \<and>
        handleSavePolicy p prev ! i = p \<and>
        (\<forall>j<length prev. j \<noteq> i \<longrightarrow> handleSavePolicy p prev ! j = prev ! j))) \<and>
   (p_id draft = ''new'' \<longrightarrow>
      saved_policy now draft = draft\<lparr>p_id := ''P-'' @ int_to_string now\<rparr> \<and>
      p_id (saved_policy now draft) \<noteq> ''new'' \<and>
      save now draft prev = handleSavePolicy (draft\<lparr>p_id := ''P-'' @ int_to_string now\<rparr>) prev \<and>
      saved_policy now draft \<in> set (save now draft prev) \<and>
      (\<forall>now'. now' \<noteq> now \<longrightarrow> p_id (saved_policy now' draft) \<noteq> p_id (saved_policy now draft)) \<and>
      ((\<forall>x\<in>set prev. p_id x \<noteq> ''P-'' @ int_to_string now) \<longrightarrow>
         save now draft prev = draft\<lparr>p_id := ''P-'' @ int_to_string now\<rparr> # prev) \<and>
      ((\<exists>x\<in>set prev. p_id x = ''P-'' @ int_to_string now) \<longrightarrow>
         (\<exists>i<length prev. p_id (prev ! i) = ''P-'' @ int_to_string now \<and>
            (\<forall>j<i. p_id (prev ! j) \<noteq> ''P-'' @ int_to_string now) \<and>
            save now draft prev = prev[i := draft\<lparr>p_id := ''P-'' @ int_to_string now\<rparr>] \<and>
            length (save now draft prev) = length prev))) \<and>
   (p_id draft \<noteq> ''new'' \<longrightarrow> save now draft prev = handleSavePolicy draft prev)"
proof (intro conjI impI)
  assume ex: "\<exists>x\<in>set prev. p_id x = p_id p"
  from first_match_exists [of prev "\<lambda>x. p_id x = p_id p", OF ex]
  obtain i where i: "i < length prev" "p_id (prev ! i) = p_id p"
    "\<forall>j<i. p_id (prev ! j) \<noteq> p_id p"
    by blast
  have eq: "handleSavePolicy p prev = prev[i := p]"
    using i by (rule handleSavePolicy_first)
  have uniq: "distinct (map p_id prev) \<longrightarrow> (\<forall>k<length prev. p_id (prev ! k) = p_id p \<longrightarrow> k = i)"
    using i(1,2) distinct_p_ids_unique by metis
  have "length (handleSavePolicy p prev) = length prev"
    "handleSavePolicy p prev ! i = p"
    "\<forall>j<length prev. j \<noteq> i \<longrightarrow> handleSavePolicy p prev ! j = prev ! j"
    using i(1) by (simp_all add: eq)
  with i eq uniq
  show "\<exists>i<length prev. p_id (prev ! i) = p_id p \<and> (\<forall>j<i. p_id (prev ! j) \<noteq> p_id p) \<and>
        (distinct (map p_id prev) \<longrightarrow> (\<forall>k<length prev. p_id (prev ! k) = p_id p \<longrightarrow> k = i)) \<and>
        handleSavePolicy p prev = prev[i := p] \<and>
        length (handleSavePolicy p prev) = length prev \<and>
        handleSavePolicy p prev ! i = p \<and>
        (\<forall>j<length prev. j \<noteq> i \<longrightarrow> handleSavePolicy p prev ! j = prev ! j)"
    by blast
next
  assume "p_id draft = ''new''"
  then show "saved_policy now draft = draft\<lparr>p_id := ''P-'' @ int_to_string now\<rparr>"
    by (rule saved_policy_new)
next
  assume "p_id draft = ''new''"
  then show "p_id (saved_policy now draft) \<noteq> ''new''"
    by (simp add: saved_policy_new)
next
  assume "p_id draft = ''new''"
  then show "save now draft prev = handleSavePolicy (draft\<lparr>p_id := ''P-'' @ int_to_string now\<rparr>) prev"
    by (simp add: save_def saved_policy_new)
next
  show "saved_policy now draft \<in> set (save now draft prev)"
    by (simp add: save_def handleSavePolicy_member)
next
  assume n: "p_id draft = ''new''"
  show "\<forall>now'. now' \<noteq> now \<longrightarrow> p_id (saved_policy now' draft) \<noteq> p_id (saved_policy now draft)"
  proof (intro allI impI)
    fix now' :: int assume "now' \<noteq> now"
    then have "int_to_string now' \<noteq> int_to_string now"
      using int_to_string_inj by blast
    with n show "p_id (saved_policy now' draft) \<noteq> p_id (saved_policy now draft)"
      by (simp add: saved_policy_new)
  qed
next
  assume n: "p_id draft = ''new''"
  assume "\<forall>x\<in>set prev. p_id x \<noteq> ''P-'' @ int_to_string now"
  then show "save now draft prev = draft\<lparr>p_id := ''P-'' @ int_to_string now\<rparr> # prev"
    using n by (simp add: save_def saved_policy_new handleSavePolicy_no_match)
next
  let ?q = "draft\<lparr>p_id := ''P-'' @ int_to_string now\<rparr>"
  assume n: "p_id draft = ''new''"
  assume "\<exists>x\<in>set prev. p_id x = ''P-'' @ int_to_string now"
  then have "\<exists>x\<in>set prev. p_id x = p_id ?q"
    by simp
  from handleSavePolicy_match_first [OF this]
  obtain i where "i < length prev" "p_id (prev ! i) = p_id ?q"
    "\<forall>j<i. p_id (prev ! j) \<noteq> p_id ?q" "handleSavePolicy ?q prev = prev[i := ?q]"
    by blast
  moreover have "save now draft prev = handleSavePolicy ?q prev"
    using n by (simp add: save_def saved_policy_new)
  ultimately have "i < length prev \<and> p_id (prev ! i) = ''P-'' @ int_to_string now \<and>
            (\<forall>j<i. p_id (prev ! j) \<noteq> ''P-'' @ int_to_string now) \<and>
            save now draft prev = prev[i := ?q] \<and>
            length (save now draft prev) = length prev"
    by simp
  then show "\<exists>i<length prev. p_id (prev ! i) = ''P-'' @ int_to_string now \<and>
            (\<forall>j<i. p_id (prev ! j) \<noteq> ''P-'' @ int_to_string now) \<and>
            save now draft prev = prev[i := ?q] \<and>
            length (save now draft prev) = length prev"
    by blast
next
  assume "p_id draft \<noteq> ''new''"
  then show "save now draft prev = handleSavePolicy draft prev"
    by (simp add: save_def saved_policy_old)
qed

theorem handleSavePolicy_replaces_in_place_witness:
  "handleSavePolicy ((mockPolicies ! 1)\<lparr>dailyLimit := Fin 20000\<rparr>) mockPolicies
     = [mockPolicies ! 0, (mockPolicies ! 1)\<lparr>dailyLimit := Fin 20000\<rparr>] \<and>
   p_id (saved_policy 1730000000000 initialDraft) = ''P-1730000000000'' \<and>
   saved_policy 1730000000000 initialDraft \<in> set (save 1730000000000 initialDraft mockPolicies) \<and>
   save 1730000000000 initialDraft mockPolicies
     = initialDraft\<lparr>p_id := ''P-1730000000000''\<rparr> # mockPolicies \<and>
   length (save 1730000000000 initialDraft
             (initialDraft\<lparr>p_id := ''P-1730000000000''\<rparr> # mockPolicies)) = 3"
proof -
  let ?p = "(mockPolicies ! 1)\<lparr>dailyLimit := Fin 20000\<rparr>"
  have ex: "\<exists>x\<in>set mockPolicies. p_id x = p_id ?p"
    by (simp add: mockPolicies_def)
  from handleSavePolicy_replaces_in_place [of mockPolicies ?p initialDraft 1730000000000] ex
  obtain i where i: "i < length mockPolicies" "p_id (mockPolicies ! i) = p_id ?p"
    and eq: "handleSavePolicy ?p mockPolicies = mockPolicies[i := ?p]"
    by blast
  from i(1) have "i = 0 \<or> i = 1"
    by (auto simp: mockPolicies_def)
  moreover have "p_id (mockPolicies ! 0) \<noteq> p_id ?p"
    by (simp add: mockPolicies_def)
  ultimately have "i = 1"
    using i(2) by blast
  with eq have first: "handleSavePolicy ?p mockPolicies = [mockPolicies ! 0, ?p]"
    by (simp add: mockPolicies_def)
  have new: "p_id initialDraft = ''new''"
    by (simp add: initialDraft_def)
  with handleSavePolicy_replaces_in_place [of mockPolicies ?p initialDraft 1730000000000]
  have "saved_policy 1730000000000 initialDraft
          = initialDraft\<lparr>p_id := ''P-'' @ int_to_string 1730000000000\<rparr>"
    and mem: "saved_policy 1730000000000 initialDraft
          \<in> set (save 1730000000000 initialDraft mockPolicies)"
    by blast+
  then have idn: "p_id (saved_policy 1730000000000 initialDraft) = ''P-1730000000000''"
    by (simp add: int_to_string_example)
  have "\<forall>x\<in>set mockPolicies. p_id x \<noteq> ''P-'' @ int_to_string 1730000000000"
    by (simp add: int_to_string_example mockPolicies_def)
  with new handleSavePolicy_replaces_in_place [of mockPolicies ?p initialDraft 1730000000000]
  have "save 1730000000000 initialDraft mockPolicies
          = initialDraft\<lparr>p_id := ''P-'' @ int_to_string 1730000000000\<rparr> # mockPolicies"
    by blast
  then have pre: "save 1730000000000 initialDraft mockPolicies
          = initialDraft\<lparr>p_id := ''P-1730000000000''\<rparr> # mockPolicies"
    by (simp add: int_to_string_example)
  let ?st = "initialDraft\<lparr>p_id := ''P-1730000000000''\<rparr> # mockPolicies"
  have "\<exists>x\<in>set ?st. p_id x = ''P-'' @ int_to_string 1730000000000"
    by (simp add: int_to_string_example)
  with new handleSavePolicy_replaces_in_place [of ?st ?p initialDraft 1730000000000]
  have "length (save 1730000000000 initialDraft ?st) = length ?st"
    by blast
  then have col: "length (save 1730000000000 initialDraft ?st) = 3"
    by (simp add: mockPolicies_def)
  from first idn mem pre col show ?thesis
    by blast
qed

text \<open>
  C4 as stated fails: the id minted for a "new" draft need not be fresh. The initial draft
  is saved twice at one clock value. The first save puts it in front of the loaded policies
  under the id made of the clock value; the second save mints the same id, finds it stored
  and adds nothing. A second draft with another per-transaction limit, saved at that clock
  value, overwrites the policy stored by the first save.
\<close>

theorem save_minted_id_collision_counterexample:
  "save 1730000000000 initialDraft mockPolicies
     = initialDraft\<lparr>p_id := ''P-1730000000000''\<rparr> # mockPolicies \<and>
   save 1730000000000 initialDraft (save 1730000000000 initialDraft mockPolicies)
     = save 1730000000000 initialDraft mockPolicies \<and>
   save 1730000000000 (onChange_perTxnLimit ''1000'' initialDraft)
       (save 1730000000000 initialDraft mockPolicies)
     = initialDraft\<lparr>p_id := ''P-1730000000000'', perTxnLimit := Fin 1000\<rparr> # mockPolicies"
proof -
  have n: "Number ''1000'' = Fin 1000"
    by (simp add: Number_eval)
  have a: "save 1730000000000 initialDraft mockPolicies
     = initialDraft\<lparr>p_id := ''P-1730000000000''\<rparr> # mockPolicies"
    by (simp add: save_def saved_policy_def int_to_string_example initialDraft_def
        handleSavePolicy_def findIndex_def mockPolicies_def)
  have b: "save 1730000000000 initialDraft
       (initialDraft\<lparr>p_id := ''P-1730000000000''\<rparr> # mockPolicies)
     = initialDraft\<lparr>p_id := ''P-1730000000000''\<rparr> # mockPolicies"
    by (simp add: save_def saved_policy_def int_to_string_example initialDraft_def
        handleSavePolicy_def findIndex_def)
  have c: "save 1730000000000 (onChange_perTxnLimit ''1000'' initialDraft)
       (initialDraft\<lparr>p_id := ''P-1730000000000''\<rparr> # mockPolicies)
     = initialDraft\<lparr>p_id := ''P-1730000000000'', perTxnLimit := Fin 1000\<rparr> # mockPolicies"
    by (simp add: save_def saved_policy_def onChange_perTxnLimit_def n int_to_string_example
        initialDraft_def handleSavePolicy_def findIndex_def)
  from a b c show ?thesis
    by simp
qed

text \<open>
  C10. When no stored policy has the id of the saved policy, the save prepends it: the new
  collection is the saved policy followed by the previous collection, unchanged and in its
  order.
\<close>

theorem handleSavePolicy_prepends:
  assumes "\<forall>x\<in>set prev. p_id x \<noteq> p_id p"
  shows "handleSavePolicy p prev = p # prev \<and>
         length (handleSavePolicy p prev) = Suc (length prev) \<and>
         handleSavePolicy p prev ! 0 = p \<and>
         (\<forall>k<length prev. handleSavePolicy p prev ! Suc k = prev ! k)"
proof -
  from assms have "findIndex (\<lambda>x. p_id x = p_id p) prev = - 1"
    by (simp add: findIndex_eq)
  then have "handleSavePolicy p prev = p # prev"
    by (simp add: handleSavePolicy_def)
  then show ?thesis
    by simp
qed

theorem handleSavePolicy_prepends_witness:
  "handleSavePolicy (initialDraft\<lparr>p_id := ''P-1730000000000''\<rparr>) mockPolicies
     = initialDraft\<lparr>p_id := ''P-1730000000000''\<rparr> # mockPolicies"
proof -
  have "\<forall>x\<in>set mockPolicies. p_id x \<noteq> p_id (initialDraft\<lparr>p_id := ''P-1730000000000''\<rparr>)"
    by (simp add: mockPolicies_def)
  from handleSavePolicy_prepends [OF this] show ?thesis
    by blast
qed

text \<open>
  C2, as the code has it. A save is never rejected and reports no error. The policy handed
  to the save is the draft with all its fields as they are, except that the id "new" is
  replaced by "P-" and the decimal clock value. When a stored policy has its id, it
  replaces the first such policy at its position; otherwise it is put in front of the
  collection. So it is stored, and every stored policy after the save is that policy or a
  policy stored before. Every stored policy therefore satisfies
  \<open>perTxnLimit \<le> dailyLimit\<close> after a save when the saved policy and the policies stored
  before satisfy it.
\<close>

theorem save_never_rejects:
  "saved_policy now d =
     d\<lparr>p_id := (if p_id d = ''new'' then ''P-'' @ int_to_string now else p_id d)\<rparr> \<and>
   ((\<exists>x\<in>set prev. p_id x = p_id (saved_policy now d)) \<longrightarrow>
      (\<exists>i<length prev. p_id (prev ! i) = p_id (saved_policy now d) \<and>
         (\<forall>j<i. p_id (prev ! j) \<noteq> p_id (saved_policy now d)) \<and>
         save now d prev = prev[i := saved_policy now d])) \<and>
   ((\<forall>x\<in>set prev. p_id x \<noteq> p_id (saved_policy now d)) \<longrightarrow>
      save now d prev = saved_policy now d # prev) \<and>
   saved_policy now d \<in> set (save now d prev) \<and>
   set (save now d prev) \<subseteq> insert (saved_policy now d) (set prev) \<and>
   dailyLimit (saved_policy now d) = dailyLimit d \<and>
   perTxnLimit (saved_policy now d) = perTxnLimit d \<and>
   startHour (saved_policy now d) = startHour d \<and>
   endHour (saved_policy now d) = endHour d \<and>
   (js_le (perTxnLimit d) (dailyLimit d) \<and>
    (\<forall>x\<in>set prev. js_le (perTxnLimit x) (dailyLimit x)) \<longrightarrow>
      (\<forall>x\<in>set (save now d prev). js_le (perTxnLimit x) (dailyLimit x)))"
proof -
  have place1: "(\<exists>x\<in>set prev. p_id x = p_id (saved_policy now d)) \<longrightarrow>
      (\<exists>i<length prev. p_id (prev ! i) = p_id (saved_policy now d) \<and>
         (\<forall>j<i. p_id (prev ! j) \<noteq> p_id (saved_policy now d)) \<and>
         save now d prev = prev[i := saved_policy now d])"
    unfolding save_def using handleSavePolicy_match_first [of prev "saved_policy now d"]
    by blast
  have place2: "(\<forall>x\<in>set prev. p_id x \<noteq> p_id (saved_policy now d)) \<longrightarrow>
      save now d prev = saved_policy now d # prev"
    by (simp add: save_def handleSavePolicy_no_match)
  have sub: "set (save now d prev) \<subseteq> insert (saved_policy now d) (set prev)"
    by (simp add: save_def handleSavePolicy_subset)
  have mem: "saved_policy now d \<in> set (save now d prev)"
    by (simp add: save_def handleSavePolicy_member)
  have fields: "dailyLimit (saved_policy now d) = dailyLimit d"
    "perTxnLimit (saved_policy now d) = perTxnLimit d"
    "startHour (saved_policy now d) = startHour d"
    "endHour (saved_policy now d) = endHour d"
    by (simp_all add: saved_policy_def)
  have inv: "js_le (perTxnLimit d) (dailyLimit d) \<and>
    (\<forall>x\<in>set prev. js_le (perTxnLimit x) (dailyLimit x)) \<longrightarrow>
      (\<forall>x\<in>set (save now d prev). js_le (perTxnLimit x) (dailyLimit x))"
    using sub fields by auto
  from saved_policy_eq [of now d] place1 place2 mem sub fields inv show ?thesis
    by (intro conjI)
qed

theorem save_never_rejects_witness:
  "js_le (perTxnLimit initialDraft) (dailyLimit initialDraft) \<and>
   list_all (\<lambda>x. js_le (perTxnLimit x) (dailyLimit x))
     (save 1730000000000 initialDraft mockPolicies) \<and>
   save 1730000000000 initialDraft mockPolicies
     = initialDraft\<lparr>p_id := ''P-1730000000000''\<rparr> # mockPolicies \<and>
   save 1730000000000 ((mockPolicies ! 1)\<lparr>perTxnLimit := Fin 20000\<rparr>) mockPolicies
     = [mockPolicies ! 0, (mockPolicies ! 1)\<lparr>perTxnLimit := Fin 20000\<rparr>]"
proof -
  let ?T = "1730000000000 :: int"
  have d: "js_le (perTxnLimit initialDraft) (dailyLimit initialDraft)"
    by (simp add: initialDraft_def js_le_def)
  moreover have "\<forall>x\<in>set mockPolicies. js_le (perTxnLimit x) (dailyLimit x)"
    by (simp add: mockPolicies_def js_le_def)
  ultimately have "\<forall>x\<in>set (save ?T initialDraft mockPolicies).
      js_le (perTxnLimit x) (dailyLimit x)"
    using save_never_rejects [of ?T initialDraft mockPolicies] by blast
  then have inv: "list_all (\<lambda>x. js_le (perTxnLimit x) (dailyLimit x))
     (save ?T initialDraft mockPolicies)"
    by (simp add: list_all_iff)
  have sp: "saved_policy ?T initialDraft = initialDraft\<lparr>p_id := ''P-1730000000000''\<rparr>"
    using save_never_rejects [of ?T initialDraft mockPolicies]
    by (simp add: initialDraft_def int_to_string_example)
  have "\<forall>x\<in>set mockPolicies. p_id x \<noteq> p_id (saved_policy ?T initialDraft)"
    unfolding sp by (simp add: mockPolicies_def)
  with save_never_rejects [of ?T initialDraft mockPolicies]
  have "save ?T initialDraft mockPolicies = saved_policy ?T initialDraft # mockPolicies"
    by blast
  then have pre: "save ?T initialDraft mockPolicies
     = initialDraft\<lparr>p_id := ''P-1730000000000''\<rparr> # mockPolicies"
    unfolding sp .
  let ?p = "(mockPolicies ! 1)\<lparr>perTxnLimit := Fin 20000\<rparr>"
  have sq: "saved_policy ?T ?p = ?p"
    using save_never_rejects [of ?T ?p mockPolicies] by (simp add: mockPolicies_def)
  have "\<exists>x\<in>set mockPolicies. p_id x = p_id (saved_policy ?T ?p)"
    unfolding sq by (simp add: mockPolicies_def)
  with save_never_rejects [of ?T ?p mockPolicies]
  obtain i where i: "i < length mockPolicies" "p_id (mockPolicies ! i) = p_id (saved_policy ?T ?p)"
    and eq: "save ?T ?p mockPolicies = mockPolicies[i := saved_policy ?T ?p]"
    by blast
  from i(1) have "i = 0 \<or> i = 1"
    by (auto simp: mockPolicies_def)
  moreover have "p_id (mockPolicies ! 0) \<noteq> p_id (saved_policy ?T ?p)"
    unfolding sq by (simp add: mockPolicies_def)
  ultimately have "i = 1"
    using i(2) by blast
  with eq have rep: "save ?T ?p mockPolicies = [mockPolicies ! 0, ?p]"
    unfolding sq by (simp add: mockPolicies_def)
  from d inv pre rep show ?thesis
    by blast
qed

text \<open>
  C2 as stated fails. The per-transaction limit of the initial draft is set to 3000, above
  its daily limit 2500, and the draft is saved: the save stores it in front of the loaded
  policies. The same happens to the draft with start hour 22 and end hour 6.
\<close>

theorem save_invalid_policy_counterexample:
  "js_less (dailyLimit (onChange_perTxnLimit ''3000'' initialDraft))
           (perTxnLimit (onChange_perTxnLimit ''3000'' initialDraft)) \<and>
   save 1730000000000 (onChange_perTxnLimit ''3000'' initialDraft) mockPolicies
     = initialDraft\<lparr>p_id := ''P-1730000000000'', perTxnLimit := Fin 3000\<rparr> # mockPolicies \<and>
   js_le (endHour (onChange_startHour ''22'' (onChange_endHour ''6'' initialDraft)))
         (startHour (onChange_startHour ''22'' (onChange_endHour ''6'' initialDraft))) \<and>
   save 1730000000000 (onChange_startHour ''22'' (onChange_endHour ''6'' initialDraft)) mockPolicies
     = initialDraft\<lparr>p_id := ''P-1730000000000'', startHour := Fin 22, endHour := Fin 6\<rparr>
       # mockPolicies"
proof -
  have n1: "Number ''3000'' = Fin 3000" and n2: "Number ''22'' = Fin 22"
    and n3: "Number ''6'' = Fin 6"
    by (simp_all add: Number_eval)
  have s: "int_to_string 1730000000000 = ''1730000000000''"
    by (simp add: int_to_string_def decimal.simps)
  have a: "js_less (dailyLimit (onChange_perTxnLimit ''3000'' initialDraft))
           (perTxnLimit (onChange_perTxnLimit ''3000'' initialDraft))"
    by (simp add: onChange_perTxnLimit_def n1 initialDraft_def)
  have b: "save 1730000000000 (onChange_perTxnLimit ''3000'' initialDraft) mockPolicies
     = initialDraft\<lparr>p_id := ''P-1730000000000'', perTxnLimit := Fin 3000\<rparr> # mockPolicies"
    by (simp add: save_def saved_policy_def onChange_perTxnLimit_def n1 s initialDraft_def
        handleSavePolicy_def findIndex_def mockPolicies_def)
  have c: "js_le (endHour (onChange_startHour ''22'' (onChange_endHour ''6'' initialDraft)))
         (startHour (onChange_startHour ''22'' (onChange_endHour ''6'' initialDraft)))"
    by (simp add: onChange_startHour_def onChange_endHour_def n2 n3 initialDraft_def js_le_def)
  have d: "save 1730000000000 (onChange_startHour ''22'' (onChange_endHour ''6'' initialDraft)) mockPolicies
     = initialDraft\<lparr>p_id := ''P-1730000000000'', startHour := Fin 22, endHour := Fin 6\<rparr>
       # mockPolicies"
    by (simp add: save_def saved_policy_def onChange_startHour_def onChange_endHour_def n2 n3 s
        initialDraft_def handleSavePolicy_def findIndex_def mockPolicies_def)
  from a b c d show ?thesis
    by blast
qed

text \<open>
  C7. For every list of vehicles and every spend window, the feature collection of the map
  has one point feature per vehicle, in the order of the vehicles and with none left out:
  the feature at a position carries the id, the plate and the driver of the vehicle at that
  position, the spend aggregate of the window (today, 7 days or 30 days) and the
  coordinates longitude, latitude of the vehicle. The collection is a function of
  the vehicles and the window alone. \<open>vehiclesToGeoJSON\<close> itself carries the aggregate named
  by its key.
\<close>

theorem geojson_one_feature_per_vehicle:
  "fc_type (geojson vs w) = ''FeatureCollection'' \<and>
   length (features (geojson vs w)) = length vs \<and>
   (\<forall>k<length vs.
      f_type (features (geojson vs w) ! k) = ''Feature'' \<and>
      f_id (properties (features (geojson vs w) ! k)) = v_id (vs ! k) \<and>
      f_plate (properties (features (geojson vs w) ! k)) = v_plate (vs ! k) \<and>
      f_driver (properties (features (geojson vs w) ! k)) = v_driver (vs ! k) \<and>
      spend (properties (features (geojson vs w) ! k)) = window_spend w (vs ! k) \<and>
      g_type (geometry (features (geojson vs w) ! k)) = ''Point'' \<and>
      coordinates (geometry (features (geojson vs w) ! k)) = [lng (vs ! k), lat (vs ! k)]) \<and>
   length (features (vehiclesToGeoJSON vs key)) = length vs \<and>
   (\<forall>k<length vs.
      spend (properties (features (vehiclesToGeoJSON vs key) ! k)) = vehicle_get (vs ! k) key)"
  by (simp add: geojson_eq vehiclesToGeoJSON_def)

theorem geojson_one_feature_per_vehicle_witness:
  "length (features (geojson [mockVehicle1, mockVehicle2] Window_7d)) = 2 \<and>
   f_id (properties (features (geojson [mockVehicle1, mockVehicle2] Window_7d) ! 1)) = ''V-102'' \<and>
   f_plate (properties (features (geojson [mockVehicle1, mockVehicle2] Window_7d) ! 1)) = ''CPT 456 WC'' \<and>
   f_driver (properties (features (geojson [mockVehicle1, mockVehicle2] Window_7d) ! 1)) = ''A. Williams'' \<and>
   spend (properties (features (geojson [mockVehicle1, mockVehicle2] Window_7d) ! 1)) = Fin 7200 \<and>
   coordinates (geometry (features (geojson [mockVehicle1, mockVehicle2] Window_7d) ! 1))
     = [Fin (184241 / 10000), Fin (- (339249 / 10000))]"
proof -
  let ?vs = "[mockVehicle1, mockVehicle2]"
  have k: "(1::nat) < length ?vs"
    by simp
  have v: "?vs ! 1 = mockVehicle2"
    by simp
  from geojson_one_feature_per_vehicle [of ?vs Window_7d Key_spend7d] k
  have "length (features (geojson ?vs Window_7d)) = length ?vs"
    and "f_id (properties (features (geojson ?vs Window_7d) ! 1)) = v_id (?vs ! 1)"
    and "f_plate (properties (features (geojson ?vs Window_7d) ! 1)) = v_plate (?vs ! 1)"
    and "f_driver (properties (features (geojson ?vs Window_7d) ! 1)) = v_driver (?vs ! 1)"
    and "spend (properties (features (geojson ?vs Window_7d) ! 1)) = window_spend Window_7d (?vs ! 1)"
    and "coordinates (geometry (features (geojson ?vs Window_7d) ! 1)) = [lng (?vs ! 1), lat (?vs ! 1)]"
    by blast+
  then show ?thesis
    unfolding v by (simp add: mockVehicle2_def)
qed

text \<open>
  C6. The text of the MCC allowlist field is split at its commas (the pieces hold no comma
  and, joined with commas, give the text back). Every piece whose trimmed text is not a
  numeric literal, so that \<^verbatim>\<open>Number\<close> gives \<^verbatim>\<open>NaN\<close>, is dropped, and the list is made of
  the numbers of the other pieces, in their order. No piece makes the parse fail or report
  an error: the result is always a list, and it holds no \<^verbatim>\<open>NaN\<close>.
\<close>

theorem parseMccAllow_drops_unparsable:
  "join CHR '','' (split CHR '','' v) = v \<and>
   (\<forall>t\<in>set (split CHR '','' v). CHR '','' \<notin> set t) \<and>
   parseMccAllow v =
     map (\<lambda>t. Number (trim t))
       (filter (\<lambda>t. \<not> isNaN (Number (trim t))) (split CHR '','' v)) \<and>
   (\<forall>n\<in>set (parseMccAllow v). \<not> isNaN n)"
proof -
  have "\<forall>n\<in>set (parseMccAllow v). \<not> isNaN n"
    by (simp add: parseMccAllow_def)
  moreover have "\<forall>t\<in>set (split CHR '','' v). CHR '','' \<notin> set t"
    using split_no_separator by blast
  moreover note parseMccAllow_filter [of v] join_split [of "CHR '',''" v]
  ultimately show ?thesis
    by blast
qed

theorem parseMccAllow_drops_unparsable_witness:
  "parseMccAllow ''5541, abc,7'' = [Fin 5541, Fin 7] \<and>
   CHR '','' \<notin> set '' abc'' \<and> \<not> isNaN (Fin 5541) \<and> \<not> isNaN (Fin 7)"
proof -
  from parseMccAllow_drops_unparsable [of "''5541, abc,7''"]
  have eq: "parseMccAllow ''5541, abc,7'' =
     map (\<lambda>t. Number (trim t))
       (filter (\<lambda>t. \<not> isNaN (Number (trim t))) (split CHR '','' ''5541, abc,7''))"
    and sep: "\<forall>t\<in>set (split CHR '','' ''5541, abc,7''). CHR '','' \<notin> set t"
    and nn: "\<forall>n\<in>set (parseMccAllow ''5541, abc,7''). \<not> isNaN n"
    by blast+
  from eq have r: "parseMccAllow ''5541, abc,7'' = [Fin 5541, Fin 7]"
    unfolding split_example by (simp add: Number_examples)
  from sep have "CHR '','' \<notin> set '' abc''"
    unfolding split_example by simp
  moreover from nn have "\<not> isNaN (Fin 5541) \<and> \<not> isNaN (Fin 7)"
    unfolding r by simp
  ultimately show ?thesis
    using r by blast
qed

text \<open>
  C9. An empty piece is not dropped, it is the number 0: the empty text gives the list
  \<open>[0]\<close>, a trailing comma appends 0, a leading comma puts 0 in front, a doubled comma puts
  0 between the two sides, and so does a piece made of spaces only.
\<close>

theorem parseMccAllow_empty_token_is_zero:
  "parseMccAllow '''' = [Fin 0] \<and>
   parseMccAllow (a @ '','') = parseMccAllow a @ [Fin 0] \<and>
   parseMccAllow ('','' @ b) = Fin 0 # parseMccAllow b \<and>
   parseMccAllow (a @ '',,'' @ b) = parseMccAllow a @ [Fin 0] @ parseMccAllow b \<and>
   parseMccAllow (a @ '','' @ replicate n CHR '' '' @ '','' @ b)
     = parseMccAllow a @ [Fin 0] @ parseMccAllow b \<and>
   parseMccAllow ''5541,'' = [Fin 5541, Fin 0] \<and>
   parseMccAllow ''5541,,5542'' = [Fin 5541, Fin 0, Fin 5542]"
proof -
  have e: "parseMccAllow '''' = [Fin 0]"
    by (rule parseMccAllow_Nil)
  have t: "parseMccAllow (a @ '','') = parseMccAllow a @ [Fin 0]" for a
    using parseMccAllow_append [of a "[]"] by (simp add: parseMccAllow_Nil)
  have l: "parseMccAllow ('','' @ b) = Fin 0 # parseMccAllow b" for b
    using parseMccAllow_append [of "[]" b] by (simp add: parseMccAllow_Nil)
  have d: "parseMccAllow (a @ '',,'' @ b) = parseMccAllow a @ [Fin 0] @ parseMccAllow b" for a b
    using parseMccAllow_append [of a "CHR '','' # b"] l [of b] by simp
  have w: "parseMccAllow (a @ '','' @ replicate n CHR '' '' @ '','' @ b)
     = parseMccAllow a @ [Fin 0] @ parseMccAllow b"
    using parseMccAllow_append [of a "replicate n CHR '' '' @ CHR '','' # b"]
      parseMccAllow_append [of "replicate n CHR '' ''" b]
    by (simp add: parseMccAllow_spaces)
  have one: "parseMccAllow ''5541'' = [Fin 5541]" and two: "parseMccAllow ''5542'' = [Fin 5542]"
    by (simp_all add: parseMccAllow_def Number_eval)
  have x1: "parseMccAllow ''5541,'' = [Fin 5541, Fin 0]"
    using t [of "''5541''"] by (simp add: one)
  have x2: "parseMccAllow ''5541,,5542'' = [Fin 5541, Fin 0, Fin 5542]"
    using d [of "''5541''" "''5542''"] by (simp add: one two)
  from e t l d w x1 x2 show ?thesis
    by blast
qed

end
